theory Spec2Isabelle
  imports Complex_Main
begin

section \<open>Embedding of \<^verbatim>\<open>eddymotion/model.py\<close>\<close>

text \<open>
  The module adapts diffusion models to a chunk-parallel fit/predict engine
  (\<^verbatim>\<open>BaseModel\<close>), two self-contained models (\<^verbatim>\<open>TrivialB0Model\<close>,
  \<^verbatim>\<open>AverageDWModel\<close>), the wrappers \<^verbatim>\<open>DTIModel\<close> and \<^verbatim>\<open>DKIModel\<close>, and the gradient
  adapter \<^verbatim>\<open>_rasb2dipy\<close>.

  Conventions of the embedding.
  \<^item> A numpy array is its shape together with its elements in C (row-major) order.
    A 4D volume of shape \<open>(X, Y, Z, G)\<close> is the list of its \<open>X * Y * Z\<close> voxels in C
    order, each voxel being the list of its \<open>G\<close> samples; a 3D array is the flat
    list of its elements.
  \<^item> Array elements are exact numbers of an ordered field (or of an arbitrary type
    where no arithmetic is done). Rounding, \<^verbatim>\<open>nan\<close> and \<^verbatim>\<open>inf\<close> of the floating-point
    types are outside the embedding, as is the narrowing to \<^verbatim>\<open>float32\<close>.
  \<^item> Every exception is a value of type \<open>error\<close>; a method that mutates \<^verbatim>\<open>self\<close>
    returns the raised error (if any) together with the object after the call.
  \<^item> The worker pool runs independent pure tasks and returns their results in
    submission order; it is embedded as a map over the task list. When several
    tasks raise, the error of the lowest block index is the one reported.
  \<^item> Library functions that the module calls but does not define (the wrapped
    models, \<^verbatim>\<open>gradient_table\<close>, \<^verbatim>\<open>np.median\<close>, \<^verbatim>\<open>np.percentile\<close>) are parameters.
\<close>

subsection \<open>Exceptions\<close>

datatype error =
    ValueError string
  | IndexError
  | TypeError
  | AttributeError
  | LibraryError string

subsection \<open>\<^verbatim>\<open>np.array_split\<close> along axis 0\<close>

text \<open>
  numpy's \<^verbatim>\<open>array_split(ary, n)\<close> for an integer \<open>n\<close>:
  \<^verbatim>\<open>
    Ntotal = len(ary)
    if Nsections <= 0: raise ValueError('number sections must be larger than 0.')
    Neach_section, extras = divmod(Ntotal, Nsections)
    section_sizes = ([0] + extras * [Neach_section+1] +
                     (Nsections-extras) * [Neach_section])
    div_points = array(section_sizes).cumsum()
    for i in range(Nsections):
        st = div_points[i]; end = div_points[i + 1]
        sub_arys.append(sary[st:end])
  \<close>
\<close>

definition section_sizes :: "nat \<Rightarrow> nat \<Rightarrow> nat list" where
  "section_sizes Ntotal Nsections =
     0 # replicate (Ntotal mod Nsections) (Ntotal div Nsections + 1)
       @ replicate (Nsections - Ntotal mod Nsections) (Ntotal div Nsections)"

fun cumsum_from :: "nat \<Rightarrow> nat list \<Rightarrow> nat list" where
  "cumsum_from acc [] = []"
| "cumsum_from acc (x # xs) = (acc + x) # cumsum_from (acc + x) xs"

definition cumsum :: "nat list \<Rightarrow> nat list" where
  "cumsum xs = cumsum_from 0 xs"

definition slice :: "'a list \<Rightarrow> nat \<Rightarrow> nat \<Rightarrow> 'a list" where
  \<comment> \<open>\<^verbatim>\<open>xs[st:end]\<close> for non-negative bounds\<close>
  "slice xs st en = take (en - st) (drop st xs)"

definition array_split_sections :: "'a list \<Rightarrow> nat \<Rightarrow> 'a list list" where
  "array_split_sections ary Nsections =
     (let div_points = cumsum (section_sizes (length ary) Nsections)
      in map (\<lambda>i. slice ary (div_points ! i) (div_points ! (i + 1))) [0..<Nsections])"

definition array_split :: "'a list \<Rightarrow> int \<Rightarrow> error + 'a list list" where
  "array_split ary Nsections =
     (if Nsections \<le> 0 then Inl (ValueError ''number sections must be larger than 0.'')
      else Inr (array_split_sections ary (nat Nsections)))"

text \<open>The same split written as a recursion over the section sizes.\<close>

fun split_sizes :: "nat list \<Rightarrow> 'a list \<Rightarrow> 'a list list" where
  "split_sizes [] xs = []"
| "split_sizes (s # ss) xs = take s xs # split_sizes ss (drop s xs)"


subsection \<open>Arrays\<close>

type_synonym shape3 = "nat \<times> nat \<times> nat"

fun size3 :: "shape3 \<Rightarrow> nat" where
  "size3 (x, y, z) = x * y * z"

record 'a volume =
  vdims :: shape3
  vsamples :: nat
  voxels :: "'a list list"

definition volume_ok :: "'a volume \<Rightarrow> bool" where
  \<comment> \<open>the element count of an array of shape \<open>(X, Y, Z, G)\<close>\<close>
  "volume_ok v \<longleftrightarrow>
     length (voxels v) = size3 (vdims v) \<and> list_all (\<lambda>r. length r = vsamples v) (voxels v)"

record 'a array3 =
  dims :: shape3
  flat :: "'a list"

definition array3_ok :: "'a array3 \<Rightarrow> bool" where
  "array3_ok a \<longleftrightarrow> length (flat a) = size3 (dims a)"

text \<open>A 1D or 2D array, as \<^verbatim>\<open>_rasb2dipy\<close> receives it: \<open>Arr2 r c rows\<close> has shape \<open>(r, c)\<close>.\<close>

datatype 'a ndarray = Arr1 "'a list" | Arr2 nat nat "'a list list"

fun ndarray_ok :: "'a ndarray \<Rightarrow> bool" where
  "ndarray_ok (Arr1 xs) = True"
| "ndarray_ok (Arr2 r c rows) = (length rows = r \<and> list_all (\<lambda>row. length row = c) rows)"

definition transpose2 :: "nat \<Rightarrow> 'a list list \<Rightarrow> 'a list list" where
  \<comment> \<open>\<^verbatim>\<open>a.T\<close> of a 2D array with \<open>ncols\<close> columns\<close>
  "transpose2 ncols rows = map (\<lambda>j. map (\<lambda>row. row ! j) rows) [0..<ncols]"

definition bool_index :: "bool list \<Rightarrow> 'a list \<Rightarrow> 'a list" where
  \<comment> \<open>\<^verbatim>\<open>a[mask]\<close> along the leading axes, mask and array of equal shape there\<close>
  "bool_index bs xs = map fst (filter snd (zip xs bs))"

fun bool_assign :: "bool list \<Rightarrow> 'a list \<Rightarrow> 'a list \<Rightarrow> 'a list" where
  \<comment> \<open>\<^verbatim>\<open>a[mask] = values\<close>, one value per true position, in C order\<close>
  "bool_assign [] as vs = as"
| "bool_assign (b # bs) [] vs = []"
| "bool_assign (True # bs) (a # as) (v # vs) = v # bool_assign bs as vs"
| "bool_assign (True # bs) (a # as) [] = a # bool_assign bs as []"
| "bool_assign (False # bs) (a # as) vs = a # bool_assign bs as vs"

definition count_true :: "bool list \<Rightarrow> nat" where
  "count_true bs = length (filter (\<lambda>b. b) bs)"

subsection \<open>Keyword arguments\<close>

datatype 'a pyval = PyNone | PyArray "'a list" | PyInt int | PyStr string

type_synonym 'a kwargs = "(string \<times> 'a pyval) list"

definition bind_keywords :: "'a kwargs \<Rightarrow> 'a kwargs \<Rightarrow> error + 'a kwargs" where
  \<comment> \<open>\<^verbatim>\<open>f(k1=v1, ..., **kwargs)\<close>: a keyword given twice is a \<^verbatim>\<open>TypeError\<close>\<close>
  "bind_keywords explicit kwargs =
     (if list_ex (\<lambda>k. k \<in> set (map fst kwargs)) (map fst explicit) then Inl TypeError
      else Inr (explicit @ kwargs))"

definition kw_pop :: "string \<Rightarrow> 'a pyval \<Rightarrow> 'a kwargs \<Rightarrow> 'a pyval" where
  \<comment> \<open>the value of \<^verbatim>\<open>kwargs.pop(key, dflt)\<close>\<close>
  "kw_pop key dflt kwargs = (case map_of kwargs key of None \<Rightarrow> dflt | Some v \<Rightarrow> v)"

definition py_opt :: "'a list option \<Rightarrow> 'a pyval" where
  "py_opt x = (case x of None \<Rightarrow> PyNone | Some xs \<Rightarrow> PyArray xs)"

subsection \<open>The model capability\<close>

text \<open>
  The wrapped object of the external modelling library, seen through its two methods.
  \<open>fit_of c m data\<close> is \<^verbatim>\<open>m.fit(data)\<close> on a 2D voxel array; \<open>predict_of c m g S0\<close> is
  \<^verbatim>\<open>np.squeeze(m.predict(g, S0=S0))\<close>, one value per voxel. (A one-element result, which
  \<^verbatim>\<open>np.squeeze\<close> makes 0-dimensional, is kept as a one-element list: \<^verbatim>\<open>np.hstack\<close>,
  \<^verbatim>\<open>reshape\<close> and broadcasting treat both alike.) The same slot of the engine holds the
  model before the fit and the fitted object after it, so both have the type \<open>'m\<close>.
\<close>

record ('m, 'g, 'a) capability =
  fit_of :: "'m \<Rightarrow> 'a list list \<Rightarrow> error + 'm"
  predict_of :: "'m \<Rightarrow> 'g \<Rightarrow> 'a pyval \<Rightarrow> error + 'a list"

definition exec_fit ::
  "('m, 'g, 'a) capability \<Rightarrow> 'm option \<Rightarrow> 'a list list \<Rightarrow> 'a pyval
     \<Rightarrow> error + ('m \<times> 'a pyval)" where
  "exec_fit cap model data block =
     (case model of
        None \<Rightarrow> Inl AttributeError
      | Some m \<Rightarrow>
          (case fit_of cap m data of
             Inl e \<Rightarrow> Inl e
           | Inr retval \<Rightarrow> Inr (retval, block)))"

definition exec_predict ::
  "('m, 'g, 'a) capability \<Rightarrow> 'm option \<Rightarrow> 'g \<Rightarrow> 'a kwargs
     \<Rightarrow> error + ('a list \<times> 'a pyval)" where
  \<comment> \<open>the keywords are those of the call; \<^verbatim>\<open>block\<close> is a named parameter with default
      \<^verbatim>\<open>None\<close>, the others are collected in the function's \<^verbatim>\<open>kwargs\<close>\<close>
  "exec_predict cap model gradient keywords =
     (let block = kw_pop ''block'' PyNone keywords;
          kwargs = filter (\<lambda>(k, v). k \<noteq> ''block'') keywords
      in case model of
           None \<Rightarrow> Inl AttributeError
         | Some m \<Rightarrow>
             (case predict_of cap m gradient (kw_pop ''S0'' PyNone kwargs) of
                Inl e \<Rightarrow> Inl e
              | Inr p \<Rightarrow> Inr (p, block)))"

subsection \<open>\<^verbatim>\<open>_rasb2dipy\<close>\<close>

definition rasb2dipy_2d ::
  "('b list \<Rightarrow> 'b list list \<Rightarrow> error + 'g) \<Rightarrow> nat \<Rightarrow> nat \<Rightarrow> 'b list list
     \<Rightarrow> string list \<times> (error + 'g)" where
  "rasb2dipy_2d gradient_table r c rows =
     (let (r', c', gradient, printed) =
            (if r \<noteq> 4 then (c, r, transpose2 c rows, [])
             else if (r, c) = (4, 4)
               then (r, c, rows, [''Warning: make sure gradient information is not transposed!''])
             else (r, c, rows, []))
      in if r' \<le> 3 then (printed, Inl IndexError)
         else (printed, gradient_table (gradient ! 3) (transpose2 c' (take 3 gradient))))"

definition rasb2dipy ::
  "('b list \<Rightarrow> 'b list list \<Rightarrow> error + 'g) \<Rightarrow> 'b ndarray \<Rightarrow> string list \<times> (error + 'g)" where
  \<comment> \<open>the lines printed, and the result or the exception\<close>
  "rasb2dipy gradient_table gradient =
     (case gradient of
        Arr1 xs \<Rightarrow>
          if length xs \<noteq> 4 then ([], Inl (ValueError ''Missing gradient information.''))
          else rasb2dipy_2d gradient_table 4 1 (map (\<lambda>x. [x]) xs)
      | Arr2 r c rows \<Rightarrow> rasb2dipy_2d gradient_table r c rows)"

subsection \<open>\<^verbatim>\<open>BaseModel\<close>\<close>

record ('m, 'a) BaseModel =
  slot_model :: "'m option"
  slot_mask :: "bool array3 option"
  slot_S0 :: "'a list option"
  slot_models :: "'m option list option"
  slot_datashape :: "(shape3 \<times> nat) option"

definition BaseModel_init :: "('m, 'a) BaseModel" where
  \<comment> \<open>\<^verbatim>\<open>_datashape\<close> is a slot that \<^verbatim>\<open>__init__\<close> leaves unset\<close>
  "BaseModel_init =
     \<lparr>slot_model = None, slot_mask = None, slot_S0 = None, slot_models = None,
      slot_datashape = None\<rparr>"

fun collect :: "(error + 'x) list \<Rightarrow> error + 'x list" where
  \<comment> \<open>the results of the pool, or the exception of the first task that raised\<close>
  "collect [] = Inr []"
| "collect (Inl e # rs) = Inl e"
| "collect (Inr x # rs) = (case collect rs of Inl e \<Rightarrow> Inl e | Inr xs \<Rightarrow> Inr (x # xs))"

fun store_results :: "('x \<times> 'a pyval) list \<Rightarrow> 'x option list \<Rightarrow> error + 'x option list" where
  \<comment> \<open>\<^verbatim>\<open>for sub, index in results: slots[index] = sub\<close>; a negative index counts from the end\<close>
  "store_results [] slots = Inr slots"
| "store_results ((sub, PyInt i) # rs) slots =
     (let n = int (length slots); j = (if i < 0 then n + i else i)
      in if 0 \<le> j \<and> j < n then store_results rs (slots[nat j := Some sub])
         else Inl IndexError)"
| "store_results ((sub, _) # rs) slots = Inl TypeError"

definition select_voxels :: "bool array3 option \<Rightarrow> 'a volume \<Rightarrow> error + 'a list list" where
  "select_voxels msk data =
     (case msk of
        Some mk \<Rightarrow>
          if dims mk \<noteq> vdims data then Inl IndexError
          else Inr (bool_index (flat mk) (voxels data))
      | None \<Rightarrow>
          if vsamples data = 0 then Inl (ValueError ''cannot reshape array of size 0'')
          else Inr (voxels data))"

definition BaseModel_fit ::
  "('m, 'g, 'a) capability \<Rightarrow> 'a volume \<Rightarrow> int option \<Rightarrow> ('m, 'a) BaseModel
     \<Rightarrow> error option \<times> ('m, 'a) BaseModel" where
  "BaseModel_fit cap data n_jobs self =
     (let n_jobs = (case n_jobs of None \<Rightarrow> 1 | Some k \<Rightarrow> if k = 0 then 1 else k);
          self = self\<lparr>slot_datashape := Some (vdims data, vsamples data)\<rparr>
      in case select_voxels (slot_mask self) data of
           Inl e \<Rightarrow> (Some e, self)
         | Inr data \<Rightarrow>
             if n_jobs = 1 then
               (case exec_fit cap (slot_model self) data PyNone of
                  Inl e \<Rightarrow> (Some e, self)
                | Inr (retval, _) \<Rightarrow> (None, self\<lparr>slot_model := Some retval\<rparr>))
             else
               (case array_split data n_jobs of
                  Inl e \<Rightarrow> (Some e, self)
                | Inr data_chunks \<Rightarrow>
                    let self = self\<lparr>slot_models := Some (replicate (nat n_jobs) None)\<rparr>
                    in case collect (map (\<lambda>(i, dblock). exec_fit cap (slot_model self) dblock (PyInt (int i)))
                                       (enumerate 0 data_chunks)) of
                         Inl e \<Rightarrow> (Some e, self)
                       | Inr results \<Rightarrow>
                           (case store_results results (replicate (nat n_jobs) None) of
                              Inl e \<Rightarrow> (Some e, self)
                            | Inr ms \<Rightarrow>
                                (None, self\<lparr>slot_models := Some ms, slot_model := None\<rparr>))))"


definition n_models_of :: "('m, 'a) BaseModel \<Rightarrow> nat" where
  \<comment> \<open>\<^verbatim>\<open>len(self._models) if self._model is None and self._models else 1\<close>\<close>
  "n_models_of self =
     (case slot_models self of
        None \<Rightarrow> 1
      | Some ms \<Rightarrow> if slot_model self = None \<and> ms \<noteq> [] then length ms else 1)"

fun hstack :: "'a list option list \<Rightarrow> error + 'a list" where
  \<comment> \<open>\<^verbatim>\<open>np.hstack\<close> of 1D arrays. An entry still \<^verbatim>\<open>None\<close> cannot occur, since every
      index is stored before; it is embedded as an exception.\<close>
  "hstack [] = Inr []"
| "hstack (None # ps) = Inl TypeError"
| "hstack (Some p # ps) = (case hstack ps of Inl e \<Rightarrow> Inl e | Inr q \<Rightarrow> Inr (p @ q))"

definition predict_single ::
  "('m, 'g, 'a) capability \<Rightarrow> 'g \<Rightarrow> 'a kwargs \<Rightarrow> ('m, 'a) BaseModel \<Rightarrow> error + 'a list" where
  \<comment> \<open>\<^verbatim>\<open>predicted, _ = _exec_predict(self._model, gradient, S0=self._S0, **kwargs)\<close>\<close>
  "predict_single cap gradient kwargs self =
     (case bind_keywords [(''S0'', py_opt (slot_S0 self))] kwargs of
        Inl e \<Rightarrow> Inl e
      | Inr keywords \<Rightarrow>
          (case exec_predict cap (slot_model self) gradient keywords of
             Inl e \<Rightarrow> Inl e
           | Inr (predicted, _) \<Rightarrow> Inr predicted))"

definition predict_chunked ::
  "('m, 'g, 'a) capability \<Rightarrow> 'g \<Rightarrow> 'a kwargs \<Rightarrow> ('m, 'a) BaseModel \<Rightarrow> nat
     \<Rightarrow> error + 'a list" where
  "predict_chunked cap gradient kwargs self n_models =
     (case slot_models self of
        None \<Rightarrow> Inl TypeError
      | Some models \<Rightarrow>
          (case (case slot_S0 self of
                   None \<Rightarrow> Inr (replicate n_models PyNone)
                 | Some s \<Rightarrow>
                     (case array_split s (int n_models) of
                        Inl e \<Rightarrow> Inl e
                      | Inr chunks \<Rightarrow> Inr (map PyArray chunks))) of
             Inl e \<Rightarrow> Inl e
           | Inr S0 \<Rightarrow>
               (case collect
                       (map (\<lambda>(i, model).
                               case bind_keywords
                                      [(''S0'', S0 ! i), (''block'', PyInt (int i))] kwargs of
                                 Inl e \<Rightarrow> Inl e
                               | Inr keywords \<Rightarrow> exec_predict cap model gradient keywords)
                            (enumerate 0 models)) of
                  Inl e \<Rightarrow> Inl e
                | Inr results \<Rightarrow>
                    (case store_results results (replicate n_models None) of
                       Inl e \<Rightarrow> Inl e
                     | Inr predicted \<Rightarrow> hstack predicted))))"

definition reassemble ::
  "bool array3 option \<Rightarrow> (shape3 \<times> nat) option \<Rightarrow> 'a::zero list \<Rightarrow> error + 'a array3" where
  \<comment> \<open>the masked assignment broadcasts a one-element prediction and otherwise needs one
      value per true position; \<^verbatim>\<open>reshape\<close> needs the element count of the target shape\<close>
  "reassemble msk datashape predicted =
     (case msk of
        Some mk \<Rightarrow>
          (let retval = replicate (length (flat mk)) 0;
               n = count_true (flat mk)
           in if length predicted = n
              then Inr \<lparr>dims = dims mk, flat = bool_assign (flat mk) retval predicted\<rparr>
              else (case predicted of
                      [v] \<Rightarrow> Inr \<lparr>dims = dims mk,
                                  flat = bool_assign (flat mk) retval (replicate n v)\<rparr>
                    | _ \<Rightarrow> Inl (ValueError ''shape mismatch'')))
      | None \<Rightarrow>
          (case datashape of
             None \<Rightarrow> Inl AttributeError
           | Some (d, g) \<Rightarrow>
               if length predicted = size3 d then Inr \<lparr>dims = d, flat = predicted\<rparr>
               else Inl (ValueError ''cannot reshape array'')))"

definition BaseModel_predict ::
  "('b list \<Rightarrow> 'b list list \<Rightarrow> error + 'g) \<Rightarrow> ('m, 'g, 'a::zero) capability \<Rightarrow> 'b ndarray
     \<Rightarrow> 'a kwargs \<Rightarrow> ('m, 'a) BaseModel \<Rightarrow> error + 'a array3" where
  \<comment> \<open>\<^verbatim>\<open>predict\<close> assigns no slot, so only its result is returned; the line that
      \<^verbatim>\<open>_rasb2dipy\<close> may print is not part of it\<close>
  "BaseModel_predict gradient_table cap gradient kwargs self =
     (case snd (rasb2dipy gradient_table gradient) of
        Inl e \<Rightarrow> Inl e
      | Inr gradient \<Rightarrow>
          (let n_models = n_models_of self
           in case (if n_models = 1 then predict_single cap gradient kwargs self
                    else predict_chunked cap gradient kwargs self n_models) of
                Inl e \<Rightarrow> Inl e
              | Inr predicted \<Rightarrow>
                  reassemble (slot_mask self) (slot_datashape self) predicted))"

subsection \<open>\<^verbatim>\<open>TrivialB0Model\<close>\<close>

record 's TrivialB0Model =
  b0_S0 :: 's

definition TrivialB0Model_init :: "'t \<Rightarrow> 's option \<Rightarrow> 'k \<Rightarrow> error + 's TrivialB0Model" where
  "TrivialB0Model_init gtab S0 kwargs =
     (case S0 of
        None \<Rightarrow> Inl (ValueError ''S0 must be provided'')
      | Some s \<Rightarrow> Inr \<lparr>b0_S0 = s\<rparr>)"

definition TrivialB0Model_fit :: "'d \<Rightarrow> 'k \<Rightarrow> 's TrivialB0Model \<Rightarrow> 's TrivialB0Model" where
  \<comment> \<open>the object after \<^verbatim>\<open>fit(*args, **kwargs)\<close>, whose body is only a docstring\<close>
  "TrivialB0Model_fit args kwargs self = self"

definition TrivialB0Model_predict :: "'t \<Rightarrow> 'k \<Rightarrow> 's TrivialB0Model \<Rightarrow> 's" where
  "TrivialB0Model_predict gradient kwargs self = b0_S0 self"

subsection \<open>\<^verbatim>\<open>AverageDWModel\<close>\<close>

record 'a numpy =
  np_median :: "'a list \<Rightarrow> 'a"
  np_mean :: "'a list \<Rightarrow> 'a"
  np_percentile :: "'a list \<Rightarrow> 'a \<Rightarrow> 'a"







subsection \<open>\<^verbatim>\<open>DTIModel\<close> and \<^verbatim>\<open>DKIModel\<close>\<close>

definition clip :: "'a::linorder \<Rightarrow> 'a \<Rightarrow> 'a \<Rightarrow> 'a" where
  "clip v a_min a_max = min (max v a_min) a_max"

fun amax :: "'a::linorder list \<Rightarrow> error + 'a" where
  "amax [] = Inl (ValueError ''zero-size array to reduction operation maximum'')"
| "amax (x # xs) = Inr (fold max xs x)"

definition normalize_S0 :: "'a::linordered_field array3 \<Rightarrow> error + 'a array3" where
  \<comment> \<open>\<^verbatim>\<open>np.clip(S0.astype("float32") / S0.max(), a_min=1e-5, a_max=1.0)\<close>; the division is
      the field's, so a maximum of zero (\<^verbatim>\<open>nan\<close> and \<^verbatim>\<open>inf\<close> in numpy) is not embedded\<close>
  "normalize_S0 S0 =
     (case amax (flat S0) of
        Inl e \<Rightarrow> Inl e
      | Inr m \<Rightarrow> Inr \<lparr>dims = dims S0, flat = map (\<lambda>v. clip (v / m) (1 / 100000) 1) (flat S0)\<rparr>)"

definition percentile_mask :: "'a::linordered_field numpy \<Rightarrow> 'a array3 \<Rightarrow> bool array3" where
  \<comment> \<open>\<^verbatim>\<open>self._S0 > np.percentile(self._S0, 35)\<close>\<close>
  "percentile_mask np S0 =
     \<lparr>dims = dims S0, flat = map (\<lambda>v. v > np_percentile np (flat S0) 35) (flat S0)\<rparr>"

definition index_S0 :: "'a array3 \<Rightarrow> bool array3 \<Rightarrow> error + 'a list" where
  \<comment> \<open>\<^verbatim>\<open>self._S0[self._mask]\<close>\<close>
  "index_S0 S0 mk =
     (if dims mk \<noteq> dims S0 then Inl IndexError else Inr (bool_index (flat mk) (flat S0)))"

definition tensor_kwargs :: "string list" where
  "tensor_kwargs =
     [''min_signal'', ''return_S0_hat'', ''fit_method'', ''weighting'', ''sigma'', ''jac'']"

definition DTIModel_init ::
  "'a::linordered_field numpy \<Rightarrow> ('g \<Rightarrow> (string \<times> 'v) list \<Rightarrow> error + 'm) \<Rightarrow> 'g
     \<Rightarrow> 'a array3 option \<Rightarrow> 'a array3 option \<Rightarrow> (string \<times> 'v) list
     \<Rightarrow> error + ('m, 'a) BaseModel" where
  \<comment> \<open>the mask is derived from \<open>S0\<close> exactly when none is given and \<open>S0\<close> is; \<open>S0\<close>, when
      given, is then indexed by the mask, which exists in that case\<close>
  "DTIModel_init np DipyTensorModel gtab S0 msk kwargs =
     (case (case S0 of
              None \<Rightarrow> Inr None
            | Some s \<Rightarrow> (case normalize_S0 s of Inl e \<Rightarrow> Inl e | Inr s' \<Rightarrow> Inr (Some s'))) of
        Inl e \<Rightarrow> Inl e
      | Inr S0n \<Rightarrow>
          (let mask1 = (case msk of
                          None \<Rightarrow> None
                        | Some m \<Rightarrow> Some \<lparr>dims = dims m, flat = map (\<lambda>v. v > 0) (flat m)\<rparr>);
               mask2 = (case (mask1, S0n) of
                          (None, Some s) \<Rightarrow> Some (percentile_mask np s)
                        | _ \<Rightarrow> mask1)
           in case (case (S0n, mask2) of
                      (Some s, Some mk) \<Rightarrow>
                        (case index_S0 s mk of Inl e \<Rightarrow> Inl e | Inr v \<Rightarrow> Inr (Some v))
                    | _ \<Rightarrow> Inr None) of
                Inl e \<Rightarrow> Inl e
              | Inr S0m \<Rightarrow>
                  (case DipyTensorModel gtab
                          (filter (\<lambda>(k, v). k \<in> set tensor_kwargs) kwargs) of
                     Inl e \<Rightarrow> Inl e
                   | Inr m \<Rightarrow>
                       Inr (BaseModel_init\<lparr>slot_model := Some m, slot_mask := mask2,
                                           slot_S0 := S0m\<rparr>))))"

definition DTIModel_predict ::
  "('b list \<Rightarrow> 'b list list \<Rightarrow> error + 'g) \<Rightarrow> ('m, 'g, 'a::zero) capability \<Rightarrow> 'b ndarray
     \<Rightarrow> 'a kwargs \<Rightarrow> ('m, 'a) BaseModel \<Rightarrow> error + 'a array3" where
  \<comment> \<open>\<^verbatim>\<open>return super().predict(gradient)\<close>\<close>
  "DTIModel_predict gradient_table cap gradient kwargs self =
     BaseModel_predict gradient_table cap gradient [] self"

definition DKIModel_init ::
  "'a::linordered_field numpy \<Rightarrow> ('g \<Rightarrow> (string \<times> 'v) list \<Rightarrow> error + 'm) \<Rightarrow> 'g
     \<Rightarrow> 'a array3 option \<Rightarrow> bool array3 option \<Rightarrow> (string \<times> 'v) list
     \<Rightarrow> error + ('m, 'a) BaseModel" where
  \<comment> \<open>the mask is a boolean array, on which \<^verbatim>\<open>astype(bool)\<close> is the identity; indexing
      the absent \<open>S0\<close> by a given mask is a \<^verbatim>\<open>TypeError\<close>; with no mask at all \<open>S0\<close> is
      absent too and stays so\<close>
  "DKIModel_init np DiffusionKurtosisModel gtab S0 msk kwargs =
     (case (case S0 of
              None \<Rightarrow> Inr None
            | Some s \<Rightarrow> (case normalize_S0 s of Inl e \<Rightarrow> Inl e | Inr s' \<Rightarrow> Inr (Some s'))) of
        Inl e \<Rightarrow> Inl e
      | Inr S0n \<Rightarrow>
          (let mask2 = (case (msk, S0n) of
                          (None, Some s) \<Rightarrow> Some (percentile_mask np s)
                        | _ \<Rightarrow> msk)
           in case (case mask2 of
                      None \<Rightarrow> Inr None
                    | Some mk \<Rightarrow>
                        (case S0n of
                           None \<Rightarrow> Inl TypeError
                         | Some s \<Rightarrow>
                             (case index_S0 s mk of Inl e \<Rightarrow> Inl e | Inr v \<Rightarrow> Inr (Some v)))) of
                Inl e \<Rightarrow> Inl e
              | Inr S0m \<Rightarrow>
                  (case DiffusionKurtosisModel gtab
                          (filter (\<lambda>(k, v). k \<in> set tensor_kwargs) kwargs) of
                     Inl e \<Rightarrow> Inl e
                   | Inr m \<Rightarrow>
                       Inr (BaseModel_init\<lparr>slot_model := Some m, slot_mask := mask2,
                                           slot_S0 := S0m\<rparr>))))"

subsection \<open>Concrete instances used in examples\<close>

definition gradient_table_pair ::
  "int list \<Rightarrow> int list list \<Rightarrow> error + (int list \<times> int list list)" where
  \<comment> \<open>a stand-in for \<^verbatim>\<open>gradient_table(bvals, bvecs)\<close> that returns its two arguments\<close>
  "gradient_table_pair bvals bvecs = Inr (bvals, bvecs)"

definition voxelwise_capability ::
  "('g \<Rightarrow> 'a list \<Rightarrow> 'a option \<Rightarrow> 'a) \<Rightarrow> ('a list list, 'g, 'a) capability" where
  \<comment> \<open>a capability that works voxel by voxel: the fitted object is the data, and the
      prediction for a voxel is \<open>f\<close> of the gradient, the voxel's samples and its \<open>S0\<close>\<close>
  "voxelwise_capability f =
     \<lparr>fit_of = (\<lambda>m data. Inr data),
      predict_of = (\<lambda>m g S0.
         case S0 of
           PyNone \<Rightarrow> Inr (map (\<lambda>v. f g v None) m)
         | PyArray s \<Rightarrow>
             if length s = length m then Inr (map (\<lambda>(v, b). f g v (Some b)) (zip m s))
             else Inl (ValueError ''S0 does not match the data'')
         | _ \<Rightarrow> Inl TypeError)\<rparr>"

definition sum_capability :: "(int list list, int list \<times> int list list, int) capability" where
  "sum_capability = voxelwise_capability (\<lambda>g v b. sum_list v)"

definition volume3 :: "int volume" where
  "volume3 = \<lparr>vdims = (3, 1, 1), vsamples = 2, voxels = [[1, 2], [3, 4], [5, 6]]\<rparr>"

definition unfitted :: "(int list list, int) BaseModel" where
  "unfitted = BaseModel_init\<lparr>slot_model := Some []\<rparr>"

definition acts_voxelwise ::
  "('m, 'g, 'a) capability \<Rightarrow> 'm \<Rightarrow> ('g \<Rightarrow> 'a list \<Rightarrow> 'a option \<Rightarrow> 'a) \<Rightarrow> bool" where
  \<comment> \<open>the capability fits any block of voxels, and the fitted object predicts every voxel of
      the block from that voxel's samples and its own \<open>S0\<close> value only\<close>
  "acts_voxelwise cap m f \<longleftrightarrow>
     (\<forall>data. \<exists>fitted. fit_of cap m data = Inr fitted
        \<and> (\<forall>g. predict_of cap fitted g PyNone = Inr (map (\<lambda>v. f g v None) data))
        \<and> (\<forall>g s. length s = length data \<longrightarrow>
               predict_of cap fitted g (PyArray s)
                 = Inr (map (\<lambda>(v, b). f g v (Some b)) (zip data s))))"

definition voxel_values ::
  "('g \<Rightarrow> 'a list \<Rightarrow> 'a option \<Rightarrow> 'a) \<Rightarrow> 'g \<Rightarrow> 'a list list \<Rightarrow> 'a list option \<Rightarrow> 'a list" where
  "voxel_values f g rows S0 =
     (case S0 of
        None \<Rightarrow> map (\<lambda>v. f g v None) rows
      | Some s \<Rightarrow> map (\<lambda>(v, b). f g v (Some b)) (zip rows s))"


definition gradient1 :: "int ndarray" where
  "gradient1 = Arr1 [0, 0, 1, 1000]"



definition plain_fitted :: "(int list list, int) BaseModel" where
  \<comment> \<open>\<open>unfitted\<close> after a fit of \<open>volume3\<close> with one job\<close>
  "plain_fitted =
     \<lparr>slot_model = Some [[1, 2], [3, 4], [5, 6]], slot_mask = None, slot_S0 = None,
      slot_models = None, slot_datashape = Some ((3, 1, 1), 2)\<rparr>"

definition count_capability :: "(nat, int list \<times> int list list, int) capability" where
  \<comment> \<open>a capability whose fit counts the rows of its block and whose prediction for every
      voxel of the block is that count\<close>
  "count_capability =
     \<lparr>fit_of = (\<lambda>m data. Inr (length data)),
      predict_of = (\<lambda>m g S0. Inr (replicate m (int m)))\<rparr>"

definition volume2 :: "int volume" where
  "volume2 = \<lparr>vdims = (2, 1, 1), vsamples = 1, voxels = [[7], [9]]\<rparr>"

definition count_unfitted :: "(nat, int) BaseModel" where
  "count_unfitted = BaseModel_init\<lparr>slot_model := Some 0\<rparr>"

definition strict_capability :: "(int list list, int list \<times> int list list, int) capability" where
  \<comment> \<open>a voxelwise capability whose fit raises on a block that holds a voxel with no signal\<close>
  "strict_capability =
     \<lparr>fit_of = (\<lambda>m data.
         if list_ex (\<lambda>v. list_all (\<lambda>x. x = 0) v) data then Inl (LibraryError ''singular'')
         else Inr data),
      predict_of = (\<lambda>m g S0. Inr (map sum_list m))\<rparr>"

definition volume3_first_bad :: "int volume" where
  "volume3_first_bad = \<lparr>vdims = (3, 1, 1), vsamples = 2, voxels = [[0, 0], [3, 4], [5, 6]]\<rparr>"

definition volume3_last_bad :: "int volume" where
  "volume3_last_bad = \<lparr>vdims = (3, 1, 1), vsamples = 2, voxels = [[1, 2], [3, 4], [0, 0]]\<rparr>"

definition stale_state :: "(int list list, int) BaseModel" where
  \<comment> \<open>\<open>plain_fitted\<close> after a fit with two jobs that raised\<close>
  "stale_state = plain_fitted\<lparr>slot_models := Some [None, None]\<rparr>"

definition chunked_fitted :: "(int list list, int) BaseModel" where
  \<comment> \<open>\<open>unfitted\<close> after a fit of \<open>volume3\<close> with two jobs\<close>
  "chunked_fitted =
     \<lparr>slot_model = None, slot_mask = None, slot_S0 = None,
      slot_models = Some [Some [[1, 2], [3, 4]], Some [[5, 6]]],
      slot_datashape = Some ((3, 1, 1), 2)\<rparr>"







section \<open>Properties of \<^verbatim>\<open>np.array_split\<close>\<close>

lemma length_cumsum_from: "length (cumsum_from a xs) = length xs"
  by (induction xs arbitrary: a) auto

lemma cumsum_from_nth_Suc:
  "i < length xs \<Longrightarrow> cumsum_from a (x # xs) ! Suc i = cumsum_from (a + x) xs ! i"
  by simp

lemma slices_eq_split_sizes:
  "map (\<lambda>i. slice xs (cumsum_from a (0 # ss) ! i) (cumsum_from a (0 # ss) ! (i + 1)))
       [0..<length ss]
   = split_sizes ss (drop a xs)"
proof (induction ss arbitrary: a)
  case Nil
  then show ?case by simp
next
  case (Cons s ss)
  have upt: "[0..<length (s # ss)] = 0 # map Suc [0..<length ss]"
    by (simp add: upt_conv_Cons map_Suc_upt del: upt_Suc)
  have tl: "map (\<lambda>i. slice xs (cumsum_from a (0 # s # ss) ! Suc i)
                              (cumsum_from a (0 # s # ss) ! (Suc i + 1))) [0..<length ss]
            = map (\<lambda>i. slice xs (cumsum_from (a + s) (0 # ss) ! i)
                              (cumsum_from (a + s) (0 # ss) ! (i + 1))) [0..<length ss]"
    by (rule map_cong) simp_all
  have hd: "slice xs (cumsum_from a (0 # s # ss) ! 0) (cumsum_from a (0 # s # ss) ! 1)
            = take s (drop a xs)"
    by (simp add: slice_def)
  have "map (\<lambda>i. slice xs (cumsum_from a (0 # s # ss) ! i)
                           (cumsum_from a (0 # s # ss) ! (i + 1))) [0..<length (s # ss)]
        = take s (drop a xs) # split_sizes ss (drop (a + s) xs)"
    unfolding upt using hd tl Cons.IH [of "a + s"] by (simp add: comp_def)
  then show ?case by (simp add: add.commute)
qed

lemma array_split_sections_eq:
  assumes "0 < n"
  shows "array_split_sections xs n = split_sizes (tl (section_sizes (length xs) n)) xs"
proof -
  have "length xs mod n \<le> n"
    using assms by (simp add: less_imp_le)
  then have len: "length (tl (section_sizes (length xs) n)) = n"
    by (simp add: section_sizes_def)
  have "section_sizes (length xs) n = 0 # tl (section_sizes (length xs) n)"
    by (simp add: section_sizes_def)
  then show ?thesis
    using slices_eq_split_sizes [of xs 0 "tl (section_sizes (length xs) n)"] len
    by (simp add: array_split_sections_def cumsum_def Let_def)
qed

lemma length_split_sizes: "length (split_sizes ss xs) = length ss"
  by (induction ss arbitrary: xs) auto

lemma concat_split_sizes: "concat (split_sizes ss xs) = take (sum_list ss) xs"
proof (induction ss arbitrary: xs)
  case Nil
  then show ?case by simp
next
  case (Cons s ss)
  have "take s xs @ take (sum_list ss) (drop s xs) = take (s + sum_list ss) xs"
    by (simp add: take_add)
  with Cons show ?case by simp
qed

lemma split_sizes_nth:
  "i < length ss \<Longrightarrow>
   split_sizes ss xs ! i = take (ss ! i) (drop (sum_list (take i ss)) xs)"
proof (induction ss arbitrary: xs i)
  case Nil
  then show ?case by simp
next
  case (Cons s ss)
  then show ?case by (cases i) (simp_all add: add.commute)
qed

lemma sum_list_section_sizes:
  "0 < n \<Longrightarrow> sum_list (tl (section_sizes L n)) = L"
proof -
  assume n: "0 < n"
  have le: "L mod n \<le> n" using n by (simp add: less_imp_le)
  have "sum_list (tl (section_sizes L n))
        = (L mod n) * (L div n + 1) + (n - L mod n) * (L div n)"
    by (simp add: section_sizes_def sum_list_replicate)
  also have "\<dots> = L mod n + ((L mod n) + (n - L mod n)) * (L div n)"
    by (simp add: algebra_simps)
  also have "\<dots> = L mod n + n * (L div n)"
    using le by simp
  also have "\<dots> = L" by simp
  finally show ?thesis .
qed

lemma length_array_split_sections: "length (array_split_sections xs n) = n"
  by (simp add: array_split_sections_def Let_def)

lemma concat_array_split_sections:
  "0 < n \<Longrightarrow> concat (array_split_sections xs n) = xs"
  by (simp add: array_split_sections_eq concat_split_sizes sum_list_section_sizes)

section \<open>The trivial baseline model\<close>

text \<open>
  C6. Constructing \<^verbatim>\<open>TrivialB0Model\<close> with \<^verbatim>\<open>S0=None\<close> raises \<^verbatim>\<open>ValueError\<close>. With a baseline
  \<open>S0\<close> the constructor stores it, \<^verbatim>\<open>fit\<close> leaves the object as it is, and \<^verbatim>\<open>predict\<close>
  returns \<open>S0\<close> itself, whatever the gradient and the keyword arguments are.
\<close>

theorem TrivialB0Model_contract:
  "TrivialB0Model_init gtab None kwargs = Inl (ValueError ''S0 must be provided'')
   \<and> TrivialB0Model_init gtab (Some S0) kwargs = Inr \<lparr>b0_S0 = S0\<rparr>
   \<and> TrivialB0Model_fit args fit_kwargs \<lparr>b0_S0 = S0\<rparr> = \<lparr>b0_S0 = S0\<rparr>
   \<and> TrivialB0Model_predict gradient predict_kwargs
        (TrivialB0Model_fit args fit_kwargs \<lparr>b0_S0 = S0\<rparr>) = S0"
  by (simp add: TrivialB0Model_init_def TrivialB0Model_fit_def TrivialB0Model_predict_def)

section \<open>The gradient adapter\<close>

text \<open>
  C8. \<^verbatim>\<open>_rasb2dipy\<close> raises \<^verbatim>\<open>ValueError("Missing gradient information.")\<close>, the module's
  error for a malformed gradient, on a 1D array whose size is not 4. A 2D array whose first
  dimension is not 4 is transposed before row 3 (the b-values) and rows 0 to 2 (the
  b-vectors) are taken; for a shape \<open>(N, 4)\<close> the outcome is that of the transposed array of
  shape \<open>(4, N)\<close>, and nothing is printed. A \<open>(4, 4)\<close> array prints the warning, is converted
  as it is given (row 3 of the input holds the b-values), and the adapter raises nothing of
  its own: the outcome is that of \<^verbatim>\<open>gradient_table\<close>.
\<close>

theorem rasb2dipy_shapes:
  "(length xs \<noteq> 4 \<longrightarrow>
      rasb2dipy gradient_table (Arr1 xs) = ([], Inl (ValueError ''Missing gradient information.'')))
   \<and> (r \<noteq> 4 \<longrightarrow>
      rasb2dipy gradient_table (Arr2 r c rows)
        = ([], if c \<le> 3 then Inl IndexError
               else gradient_table (transpose2 c rows ! 3)
                      (transpose2 r (take 3 (transpose2 c rows)))))
   \<and> (n \<noteq> 4 \<longrightarrow>
      rasb2dipy gradient_table (Arr2 n 4 rows)
        = rasb2dipy gradient_table (Arr2 4 n (transpose2 4 rows)))
   \<and> rasb2dipy gradient_table (Arr2 4 4 square)
        = ([''Warning: make sure gradient information is not transposed!''],
           gradient_table (square ! 3) (transpose2 4 (take 3 square)))"
  by (simp add: rasb2dipy_def rasb2dipy_2d_def)

theorem rasb2dipy_shapes_witness:
  "length [1, 2, 3 :: int] \<noteq> 4
   \<and> rasb2dipy gradient_table_pair (Arr1 [1, 2, 3])
       = ([], Inl (ValueError ''Missing gradient information.''))
   \<and> (2 :: nat) \<noteq> 4
   \<and> rasb2dipy gradient_table_pair (Arr2 2 4 [[1, 2, 3, 4], [5, 6, 7, 8]])
       = ([], Inr ([4, 8], [[1, 2, 3], [5, 6, 7]]))
   \<and> rasb2dipy gradient_table_pair (Arr2 2 4 [[1, 2, 3, 4], [5, 6, 7, 8]])
       = rasb2dipy gradient_table_pair (Arr2 4 2 [[1, 5], [2, 6], [3, 7], [4, 8]])"
proof -
  let ?g = "[[1, 2, 3, 4], [5, 6, 7, 8 :: int]]"
  have t: "transpose2 4 ?g = [[1, 5], [2, 6], [3, 7], [4, 8]]"
    by code_simp
  have u: "transpose2 2 [[1, 5], [2, 6], [3, 7 :: int]] = [[1, 2, 3], [5, 6, 7]]"
    by code_simp
  have l: "length [1, 2, 3 :: int] \<noteq> 4" and n: "(2 :: nat) \<noteq> 4"
    by simp_all
  note inst = rasb2dipy_shapes [where xs = "[1, 2, 3 :: int]" and r = 2 and c = 4 and n = 2
      and rows = ?g and square = "[]" and gradient_table = gradient_table_pair]
  from inst l have "rasb2dipy gradient_table_pair (Arr1 [1, 2, 3])
       = ([], Inl (ValueError ''Missing gradient information.''))"
    by blast
  moreover from inst n have "rasb2dipy gradient_table_pair (Arr2 2 4 ?g)
       = ([], Inr ([4, 8], [[1, 2, 3], [5, 6, 7]]))"
    by (simp add: t u gradient_table_pair_def)
  moreover have "rasb2dipy gradient_table_pair (Arr2 2 4 ?g)
       = rasb2dipy gradient_table_pair (Arr2 4 2 [[1, 5], [2, 6], [3, 7], [4, 8]])"
  proof -
    from inst n have "rasb2dipy gradient_table_pair (Arr2 2 4 ?g)
       = rasb2dipy gradient_table_pair (Arr2 4 2 (transpose2 4 ?g))"
      by blast
    then show ?thesis by (simp only: t)
  qed
  ultimately show ?thesis using l n by simp
qed

section \<open>Keyword arguments of \<^verbatim>\<open>DTIModel.predict\<close>\<close>

text \<open>
  C10. \<^verbatim>\<open>DTIModel.predict\<close> passes only the gradient on to \<^verbatim>\<open>BaseModel.predict\<close>, so its
  outcome (prediction or exception) is the same for any two sets of keyword arguments, a
  per-voxel \<^verbatim>\<open>S0\<close> included, and equals that of the engine called with no keyword at all.
\<close>

theorem DTIModel_predict_ignores_kwargs:
  "DTIModel_predict gradient_table cap gradient kwargs self
     = DTIModel_predict gradient_table cap gradient kwargs' self
   \<and> DTIModel_predict gradient_table cap gradient kwargs self
     = BaseModel_predict gradient_table cap gradient [] self"
  by (simp add: DTIModel_predict_def)

section \<open>Properties of the engine\<close>

lemma array_split_sections_length_nth:
  assumes "0 < n" "i < n"
  shows "length (array_split_sections xs n ! i)
         = length xs div n + (if i < length xs mod n then 1 else 0)"
proof -
  let ?L = "length xs"
  let ?ss = "tl (section_sizes ?L n)"
  have le: "?L mod n \<le> n" using assms by (simp add: less_imp_le)
  have len: "length ?ss = n" using le by (simp add: section_sizes_def)
  have ss_i: "?ss ! i = ?L div n + (if i < ?L mod n then 1 else 0)"
    using assms le by (simp add: section_sizes_def nth_append)
  have "sum_list (take i ?ss) + ?ss ! i \<le> sum_list ?ss"
  proof -
    have "sum_list ?ss = sum_list (take i ?ss) + sum_list (drop i ?ss)"
      by (metis append_take_drop_id sum_list_append)
    moreover have "drop i ?ss = ?ss ! i # drop (Suc i) ?ss"
      using assms len by (simp add: Cons_nth_drop_Suc)
    ultimately show ?thesis by simp
  qed
  then have "sum_list (take i ?ss) + ?ss ! i \<le> ?L"
    using assms by (simp add: sum_list_section_sizes)
  then have "length (take (?ss ! i) (drop (sum_list (take i ?ss)) xs)) = ?ss ! i"
    by simp
  then show ?thesis
    using assms len ss_i by (simp add: array_split_sections_eq split_sizes_nth)
qed

lemma collect_map_exec_fit:
  "collect (map (\<lambda>(i, d). exec_fit cap (Some m) d (PyInt (int i))) (enumerate k chunks))
   = (case collect (map (fit_of cap m) chunks) of
        Inl e \<Rightarrow> Inl e
      | Inr fs \<Rightarrow> Inr (map (\<lambda>(i, f). (f, PyInt (int i))) (enumerate k fs)))"
proof (induction chunks arbitrary: k)
  case Nil
  then show ?case by simp
next
  case (Cons c cs)
  show ?case
  proof (cases "fit_of cap m c")
    case (Inl e)
    then show ?thesis by (simp add: exec_fit_def)
  next
    case (Inr f)
    then show ?thesis
      using Cons.IH [of "Suc k"]
      by (simp add: exec_fit_def split: sum.splits)
  qed
qed

lemma length_collect: "collect rs = Inr xs \<Longrightarrow> length xs = length rs"
proof (induction rs arbitrary: xs)
  case Nil
  then show ?case by simp
next
  case (Cons r rs)
  then show ?case by (cases r) (auto split: sum.splits)
qed

lemma collect_nth: "collect rs = Inr xs \<Longrightarrow> i < length rs \<Longrightarrow> rs ! i = Inr (xs ! i)"
proof (induction rs arbitrary: xs i)
  case Nil
  then show ?case by simp
next
  case (Cons r rs)
  then show ?case by (cases r; cases i) (auto split: sum.splits)
qed

lemma store_results_range:
  "k + length fs \<le> length slots \<Longrightarrow>
   store_results (map (\<lambda>(i, f). (f, PyInt (int i))) (enumerate k fs)) slots
   = Inr (take k slots @ map Some fs @ drop (k + length fs) slots)"
proof (induction fs arbitrary: k slots)
  case Nil
  then show ?case by simp
next
  case (Cons f fs)
  have k: "k < length slots" using Cons.prems by simp
  from Cons.prems have "Suc k + length fs \<le> length (slots[k := Some f])"
    by simp
  note step = Cons.IH [OF this]
  have "take (Suc k) (slots[k := Some f]) = take k slots @ [Some f]"
    using k by (simp add: take_Suc_conv_app_nth)
  then show ?case
    using k step by (simp add: Let_def)
qed

lemma store_results_all:
  "store_results (map (\<lambda>(i, f). (f, PyInt (int i))) (enumerate 0 fs)) (replicate (length fs) None)
   = Inr (map Some fs)"
  using store_results_range [of 0 fs "replicate (length fs) None"] by simp

section \<open>Chunked fit\<close>

lemma BaseModel_fit_parallel:
  fixes n :: int and cap :: "('m, 'g, 'a) capability"
  assumes "1 < n"
    and "select_voxels (slot_mask self) data = Inr rows"
    and "slot_model self = Some m"
  shows "BaseModel_fit cap data (Some n) self
        = (case collect (map (fit_of cap m) (array_split_sections rows (nat n))) of
             Inl e \<Rightarrow>
               (Some e, self\<lparr>slot_datashape := Some (vdims data, vsamples data),
                              slot_models := Some (replicate (nat n) None)\<rparr>)
           | Inr fitted \<Rightarrow>
               (None, self\<lparr>slot_datashape := Some (vdims data, vsamples data),
                            slot_models := Some (map Some fitted),
                            slot_model := None\<rparr>))"
proof -
  let ?chunks = "array_split_sections rows (nat n)"
  have n: "n \<noteq> 0" "n \<noteq> 1" "\<not> n \<le> 0"
    using assms(1) by simp_all
  show ?thesis
  proof (cases "collect (map (fit_of cap m) ?chunks)")
    case (Inl e)
    then show ?thesis
      using n assms(2,3)
      by (simp add: BaseModel_fit_def array_split_def collect_map_exec_fit)
  next
    case (Inr fs)
    have "length fs = nat n"
      using length_collect [OF Inr] by (simp add: length_array_split_sections)
    then have "store_results (map (\<lambda>(i, f). (f, PyInt (int i) :: 'a pyval)) (enumerate 0 fs))
                 (replicate (nat n) None) = Inr (map Some fs)"
      using store_results_all [of fs] by simp
    with Inr show ?thesis
      using n assms(2,3)
      by (simp add: BaseModel_fit_def array_split_def collect_map_exec_fit)
  qed
qed

text \<open>
  C1. A fit with \<open>n > 1\<close> jobs works on the selected voxels \<open>rows\<close>: the voxels at the true
  positions of the mask when there is one, all voxels otherwise. They are cut into \<open>n\<close>
  blocks whose concatenation is \<open>rows\<close> again, the first \<open>length rows mod n\<close> blocks having
  one row more than \<open>length rows div n\<close>. If every block is fitted, fit stores the list
  of the \<open>n\<close> fitted objects, entry \<open>i\<close> being the fit of block \<open>i\<close>, and sets the single
  model reference to \<^verbatim>\<open>None\<close>; if a block raises, fit raises that exception.
\<close>

theorem BaseModel_fit_chunked:
  fixes n :: int and cap :: "('m, 'g, 'a) capability"
  assumes "1 < n"
    and "select_voxels (slot_mask self) data = Inr rows"
    and "slot_model self = Some m"
  defines "chunks \<equiv> array_split_sections rows (nat n)"
  shows "rows = (case slot_mask self of
                   None \<Rightarrow> voxels data
                 | Some mk \<Rightarrow> bool_index (flat mk) (voxels data))
    \<and> length chunks = nat n
    \<and> concat chunks = rows
    \<and> (\<forall>i < nat n. length (chunks ! i)
           = length rows div nat n + (if i < length rows mod nat n then 1 else 0))
    \<and> BaseModel_fit cap data (Some n) self
        = (case collect (map (fit_of cap m) chunks) of
             Inl e \<Rightarrow>
               (Some e, self\<lparr>slot_datashape := Some (vdims data, vsamples data),
                              slot_models := Some (replicate (nat n) None)\<rparr>)
           | Inr fitted \<Rightarrow>
               (None, self\<lparr>slot_datashape := Some (vdims data, vsamples data),
                            slot_models := Some (map Some fitted),
                            slot_model := None\<rparr>))
    \<and> (\<forall>fitted. collect (map (fit_of cap m) chunks) = Inr fitted \<longrightarrow>
          length fitted = nat n
          \<and> (\<forall>i < nat n. fit_of cap m (chunks ! i) = Inr (fitted ! i)))"
proof -
  have n: "0 < nat n"
    using assms(1) by simp
  have rows: "rows = (case slot_mask self of
                        None \<Rightarrow> voxels data
                      | Some mk \<Rightarrow> bool_index (flat mk) (voxels data))"
    using assms(2) by (auto simp: select_voxels_def split: option.splits if_splits)
  have len: "length chunks = nat n"
    by (simp add: chunks_def length_array_split_sections)
  have cat: "concat chunks = rows"
    using n by (simp add: chunks_def concat_array_split_sections)
  have sizes: "\<forall>i < nat n. length (chunks ! i)
           = length rows div nat n + (if i < length rows mod nat n then 1 else 0)"
    using n by (simp add: chunks_def array_split_sections_length_nth)
  have fitted: "length fitted = nat n
          \<and> (\<forall>i < nat n. fit_of cap m (chunks ! i) = Inr (fitted ! i))"
    if c: "collect (map (fit_of cap m) chunks) = Inr fitted" for fitted
    using length_collect [OF c] collect_nth [OF c] len by simp
  note run = BaseModel_fit_parallel [OF assms(1-3), of cap, folded chunks_def]
  from rows len cat sizes run fitted show ?thesis by blast
qed

theorem BaseModel_fit_chunked_witness:
  "1 < (2 :: int)
   \<and> select_voxels (slot_mask unfitted) volume3 = Inr [[1, 2], [3, 4], [5, 6]]
   \<and> slot_model unfitted = Some []
   \<and> BaseModel_fit sum_capability volume3 (Some 2) unfitted
       = (None, unfitted\<lparr>slot_datashape := Some ((3, 1, 1), 2),
                          slot_models := Some [Some [[1, 2], [3, 4]], Some [[5, 6]]],
                          slot_model := None\<rparr>)"
proof -
  have one: "1 < (2 :: int)"
    by simp
  have sel: "select_voxels (slot_mask unfitted) volume3 = Inr [[1, 2], [3, 4], [5, 6]]"
    by (simp add: select_voxels_def unfitted_def BaseModel_init_def volume3_def)
  have mdl: "slot_model unfitted = Some []"
    by (simp add: unfitted_def)
  let ?chunks = "array_split_sections [[1, 2], [3, 4], [5, 6 :: int]] (nat 2)"
  have col: "collect (map (fit_of sum_capability []) ?chunks)
             = Inr [[[1, 2], [3, 4]], [[5, 6]]]"
    unfolding sum_capability_def voxelwise_capability_def by code_simp
  from BaseModel_fit_chunked [OF one sel mdl, of sum_capability]
  have "BaseModel_fit sum_capability volume3 (Some 2) unfitted
        = (case collect (map (fit_of sum_capability []) ?chunks) of
             Inl e \<Rightarrow>
               (Some e, unfitted\<lparr>slot_datashape := Some (vdims volume3, vsamples volume3),
                                  slot_models := Some (replicate (nat 2) None)\<rparr>)
           | Inr fitted \<Rightarrow>
               (None, unfitted\<lparr>slot_datashape := Some (vdims volume3, vsamples volume3),
                                slot_models := Some (map Some fitted),
                                slot_model := None\<rparr>))"
    by blast
  then have "BaseModel_fit sum_capability volume3 (Some 2) unfitted
       = (None, unfitted\<lparr>slot_datashape := Some ((3, 1, 1), 2),
                          slot_models := Some [Some [[1, 2], [3, 4]], Some [[5, 6]]],
                          slot_model := None\<rparr>)"
    unfolding col by (simp add: volume3_def)
  with one sel mdl show ?thesis by simp
qed

section \<open>Properties of prediction\<close>

lemma exec_predict_keywords:
  "exec_predict cap (Some m) g ((''S0'', s) # (''block'', b) # kwargs)
   = (case predict_of cap m g s of Inl e \<Rightarrow> Inl e | Inr p \<Rightarrow> Inr (p, b))"
  by (simp add: exec_predict_def kw_pop_def)

lemma predict_single_no_kwargs:
  "slot_model self = Some m \<Longrightarrow>
   predict_single cap g [] self = predict_of cap m g (py_opt (slot_S0 self))"
  by (simp add: predict_single_def bind_keywords_def exec_predict_def kw_pop_def
           split: sum.splits)

lemma hstack_map_Some: "hstack (map Some ps) = Inr (concat ps)"
  by (induction ps) auto

lemma collect_Inr:
  "(\<And>x. x \<in> set xs \<Longrightarrow> h x = Inr (k x)) \<Longrightarrow> collect (map h xs) = Inr (map k xs)"
  by (induction xs) auto

lemma collect_map_exec_predict:
  "collect (map (\<lambda>(i, model).
              case bind_keywords [(''S0'', sl i), (''block'', PyInt (int i))] [] of
                Inl e \<Rightarrow> Inl e
              | Inr keywords \<Rightarrow> exec_predict cap model g keywords)
            (enumerate k (map Some fs)))
   = (case collect (map (\<lambda>(i, f). predict_of cap f g (sl i)) (enumerate k fs)) of
        Inl e \<Rightarrow> Inl e
      | Inr ps \<Rightarrow> Inr (map (\<lambda>(i, p). (p, PyInt (int i))) (enumerate k ps)))"
proof (induction fs arbitrary: k)
  case Nil
  then show ?case by simp
next
  case (Cons f fs)
  show ?case
  proof (cases "predict_of cap f g (sl k)")
    case (Inl e)
    then show ?thesis
      by (simp add: bind_keywords_def exec_predict_keywords)
  next
    case (Inr p)
    then show ?thesis
      using Cons.IH [of "Suc k"]
      by (simp add: bind_keywords_def exec_predict_keywords split: sum.splits)
  qed
qed

lemma enumerate_map_nth:
  "length ys = length xs \<Longrightarrow>
   map (\<lambda>(i, x). h x (ys ! i)) (enumerate 0 xs) = map (\<lambda>(x, y). h x y) (zip xs ys)"
  by (rule nth_equalityI) (simp_all add: nth_enumerate_eq)

lemma predict_chunked_fitted:
  fixes cap :: "('m, 'g, 'a) capability"
  assumes "slot_models self = Some (map Some fs)"
    and "length S0 = length fs"
    and "(case slot_S0 self of
            None \<Rightarrow> Inr (replicate (length fs) PyNone)
          | Some s \<Rightarrow>
              (case array_split s (int (length fs)) of
                 Inl e \<Rightarrow> Inl e
               | Inr chunks \<Rightarrow> Inr (map PyArray chunks))) = Inr S0"
  shows "predict_chunked cap g [] self (length fs)
         = (case collect (map (\<lambda>(f, s). predict_of cap f g s) (zip fs S0)) of
              Inl e \<Rightarrow> Inl e
            | Inr ps \<Rightarrow> Inr (concat ps))"
proof -
  let ?run = "collect (map (\<lambda>(i, f). predict_of cap f g (S0 ! i)) (enumerate 0 fs))"
  have eq: "?run = collect (map (\<lambda>(f, s). predict_of cap f g s) (zip fs S0))"
    using enumerate_map_nth [of S0 fs "\<lambda>f s. predict_of cap f g s"] assms(2) by simp
  have store: "store_results (map (\<lambda>(i, p). (p, PyInt (int i) :: 'a pyval)) (enumerate 0 ps))
                 (replicate (length fs) None) = Inr (map Some ps)"
    if "?run = Inr ps" for ps
  proof -
    have "length ps = length fs"
      using length_collect [OF that] by simp
    then show ?thesis
      using store_results_all [of ps] by simp
  qed
  show ?thesis
  proof (cases ?run)
    case (Inl e)
    then show ?thesis
      using assms(1,3) eq
      by (simp add: predict_chunked_def collect_map_exec_predict [where sl = "\<lambda>i. S0 ! i"])
  next
    case (Inr ps)
    then show ?thesis
      using assms(1,3) eq store [OF Inr]
      by (simp add: predict_chunked_def collect_map_exec_predict [where sl = "\<lambda>i. S0 ! i"]
            hstack_map_Some)
  qed
qed


lemma zip_split_sizes:
  "map (\<lambda>(c, sc). zip c sc) (zip (split_sizes ss xs) (split_sizes ss ys))
   = split_sizes ss (zip xs ys)"
  by (induction ss arbitrary: xs ys) (simp_all add: take_zip drop_zip)

lemma split_sizes_same_lengths:
  "length xs = length ys \<Longrightarrow> (c, sc) \<in> set (zip (split_sizes ss xs) (split_sizes ss ys))
   \<Longrightarrow> length c = length sc"
proof (induction ss arbitrary: xs ys)
  case Nil
  then show ?case by simp
next
  case (Cons a ss)
  from Cons.prems(2) consider "c = take a xs \<and> sc = take a ys"
    | "(c, sc) \<in> set (zip (split_sizes ss (drop a xs)) (split_sizes ss (drop a ys)))"
    by auto
  then show ?case
  proof cases
    case 1
    then show ?thesis using Cons.prems(1) by simp
  next
    case 2
    have "length (drop a xs) = length (drop a ys)"
      using Cons.prems(1) by simp
    from Cons.IH [OF this 2] show ?thesis .
  qed
qed

lemma concat_map_split_sizes:
  "sum_list ss = length zs \<Longrightarrow> concat (map (map h) (split_sizes ss zs)) = map h zs"
proof -
  assume "sum_list ss = length zs"
  then have "concat (split_sizes ss zs) = zs"
    by (simp add: concat_split_sizes)
  then show ?thesis
    by (metis map_concat)
qed

lemma voxelwise_chunks_None:
  fixes cap :: "('m, 'g, 'a) capability"
  assumes "\<And>data. predict_of cap (F data) g PyNone = Inr (map h data)"
    and "0 < n"
  shows "collect (map (\<lambda>(fitted, s). predict_of cap fitted g s)
           (zip (map F (array_split_sections rows n)) (replicate n PyNone)))
         = Inr (map (map h) (array_split_sections rows n))
       \<and> concat (map (map h) (array_split_sections rows n)) = map h rows"
proof -
  let ?chunks = "array_split_sections rows n"
  have len: "length ?chunks = n"
    by (simp add: length_array_split_sections)
  have "zip (map F ?chunks) (replicate n (PyNone :: 'a pyval)) = map (\<lambda>c. (F c, PyNone)) ?chunks"
    using len by (intro nth_equalityI) simp_all
  then have "collect (map (\<lambda>(fitted, s). predict_of cap fitted g s)
           (zip (map F ?chunks) (replicate n PyNone)))
         = collect (map (\<lambda>c. predict_of cap (F c) g PyNone) ?chunks)"
    by (simp add: comp_def)
  also have "\<dots> = Inr (map (map h) ?chunks)"
    by (rule collect_Inr) (simp add: assms(1))
  finally have run: "collect (map (\<lambda>(fitted, s). predict_of cap fitted g s)
           (zip (map F ?chunks) (replicate n PyNone))) = Inr (map (map h) ?chunks)" .
  have "concat (map (map h) ?chunks) = map h (concat ?chunks)"
    by (simp add: map_concat)
  then have "concat (map (map h) ?chunks) = map h rows"
    using assms(2) by (simp add: concat_array_split_sections)
  with run show ?thesis by simp
qed

lemma voxelwise_chunks_Some:
  assumes "\<And>data s. length s = length data \<Longrightarrow>
              predict_of cap (F data) g (PyArray s) = Inr (map h (zip data s))"
    and "0 < n" and "length s = length rows"
  shows "collect (map (\<lambda>(fitted, s). predict_of cap fitted g s)
           (zip (map F (array_split_sections rows n))
                (map PyArray (array_split_sections s n))))
         = Inr (map (\<lambda>(c, sc). map h (zip c sc))
                  (zip (array_split_sections rows n) (array_split_sections s n)))
       \<and> concat (map (\<lambda>(c, sc). map h (zip c sc))
                  (zip (array_split_sections rows n) (array_split_sections s n)))
         = map h (zip rows s)"
proof -
  let ?ss = "tl (section_sizes (length rows) n)"
  let ?chunks = "split_sizes ?ss rows" and ?schunks = "split_sizes ?ss s"
  have c: "array_split_sections rows n = ?chunks" "array_split_sections s n = ?schunks"
    using assms(2,3) by (simp_all add: array_split_sections_eq)
  have pairs: "length sc = length c" if "(c, sc) \<in> set (zip ?chunks ?schunks)" for c sc
    using split_sizes_same_lengths [OF _ that] assms(3) by simp
  have "zip (map F ?chunks) (map PyArray ?schunks)
        = map (\<lambda>(c, sc). (F c, PyArray sc)) (zip ?chunks ?schunks)"
    by (simp add: zip_map_map)
  then have "collect (map (\<lambda>(fitted, s). predict_of cap fitted g s)
               (zip (map F ?chunks) (map PyArray ?schunks)))
        = collect (map (\<lambda>(c, sc). predict_of cap (F c) g (PyArray sc)) (zip ?chunks ?schunks))"
    by (simp add: comp_def case_prod_unfold)
  also have "\<dots> = Inr (map (\<lambda>(c, sc). map h (zip c sc)) (zip ?chunks ?schunks))"
    by (rule collect_Inr) (auto simp: assms(1) pairs)
  finally have run: "collect (map (\<lambda>(fitted, s). predict_of cap fitted g s)
               (zip (map F ?chunks) (map PyArray ?schunks)))
        = Inr (map (\<lambda>(c, sc). map h (zip c sc)) (zip ?chunks ?schunks))" .
  have "map (\<lambda>(c, sc). map h (zip c sc)) (zip ?chunks ?schunks)
        = map (map h) (map (\<lambda>(c, sc). zip c sc) (zip ?chunks ?schunks))"
    by (simp add: comp_def case_prod_unfold)
  also have "\<dots> = map (map h) (split_sizes ?ss (zip rows s))"
    by (simp only: zip_split_sizes)
  finally have "concat (map (\<lambda>(c, sc). map h (zip c sc)) (zip ?chunks ?schunks))
        = concat (map (map h) (split_sizes ?ss (zip rows s)))"
    by simp
  also have "\<dots> = map h (zip rows s)"
    using assms(2,3) by (intro concat_map_split_sizes) (simp add: sum_list_section_sizes)
  finally show ?thesis
    using run by (simp only: c)
qed

lemma n_models_of_single: "slot_model self \<noteq> None \<Longrightarrow> n_models_of self = 1"
  by (auto simp: n_models_of_def split: option.splits)

lemma BaseModel_predict_stages:
  "snd (rasb2dipy gt gradient) = Inr g \<Longrightarrow>
   BaseModel_predict gt cap gradient kwargs self
   = (case (if n_models_of self = 1 then predict_single cap g kwargs self
            else predict_chunked cap g kwargs self (n_models_of self)) of
        Inl e \<Rightarrow> Inl e
      | Inr predicted \<Rightarrow> reassemble (slot_mask self) (slot_datashape self) predicted)"
  by (simp add: BaseModel_predict_def Let_def)

lemma BaseModel_fit_serial:
  assumes "n = 0 \<or> n = 1"
    and "select_voxels (slot_mask self) data = Inr rows"
    and "slot_model self = Some m"
  shows "BaseModel_fit cap data (Some n) self
        = (case fit_of cap m rows of
             Inl e \<Rightarrow> (Some e, self\<lparr>slot_datashape := Some (vdims data, vsamples data)\<rparr>)
           | Inr fitted \<Rightarrow>
               (None, self\<lparr>slot_datashape := Some (vdims data, vsamples data),
                            slot_model := Some fitted\<rparr>))"
  using assms by (auto simp: BaseModel_fit_def exec_fit_def split: sum.splits)

lemma fit_then_predict_voxelwise:
  fixes cap :: "('m, 'g, 'a::zero) capability" and n :: int
  assumes vw: "acts_voxelwise cap m f"
    and mdl: "slot_model self = Some m"
    and n: "0 \<le> n"
    and sel: "select_voxels (slot_mask self) data = Inr rows"
    and S0: "case slot_S0 self of None \<Rightarrow> True | Some s \<Rightarrow> length s = length rows"
    and conv: "snd (rasb2dipy gt gradient) = Inr g"
  shows "fst (BaseModel_fit cap data (Some n) self) = None
    \<and> BaseModel_predict gt cap gradient [] (snd (BaseModel_fit cap data (Some n) self))
        = reassemble (slot_mask self) (Some (vdims data, vsamples data))
            (voxel_values f g rows (slot_S0 self))"
proof -
  from vw have "\<forall>data. \<exists>fitted. fit_of cap m data = Inr fitted
        \<and> (\<forall>g. predict_of cap fitted g PyNone = Inr (map (\<lambda>v. f g v None) data))
        \<and> (\<forall>g s. length s = length data \<longrightarrow>
               predict_of cap fitted g (PyArray s)
                 = Inr (map (\<lambda>(v, b). f g v (Some b)) (zip data s)))"
    by (simp add: acts_voxelwise_def)
  then obtain F where F: "\<And>data. fit_of cap m data = Inr (F data)"
    and FN: "\<And>data g. predict_of cap (F data) g PyNone = Inr (map (\<lambda>v. f g v None) data)"
    and FS: "\<And>data g s. length s = length data \<Longrightarrow>
               predict_of cap (F data) g (PyArray s)
                 = Inr (map (\<lambda>(v, b). f g v (Some b)) (zip data s))"
    by metis
  let ?shape = "Some (vdims data, vsamples data)"
  let ?vals = "voxel_values f g rows (slot_S0 self)"
  show ?thesis
  proof (cases "n = 0 \<or> n = 1")
    case True
    let ?self = "self\<lparr>slot_datashape := ?shape, slot_model := Some (F rows)\<rparr>"
    have fit: "BaseModel_fit cap data (Some n) self = (None, ?self)"
      using BaseModel_fit_serial [OF True sel mdl, of cap] by (simp add: F)
    have "predict_single cap g [] ?self = predict_of cap (F rows) g (py_opt (slot_S0 self))"
      using predict_single_no_kwargs [of ?self "F rows" cap g] by simp
    also have "\<dots> = Inr ?vals"
      using S0 by (cases "slot_S0 self") (simp_all add: py_opt_def voxel_values_def FN FS)
    finally have "predict_single cap g [] ?self = Inr ?vals" .
    then have "BaseModel_predict gt cap gradient [] ?self
               = reassemble (slot_mask self) ?shape ?vals"
      by (simp add: BaseModel_predict_stages [OF conv] n_models_of_single)
    with fit show ?thesis by simp
  next
    case False
    with n have n2: "1 < n" by simp
    then have pos: "0 < nat n" and ne: "nat n \<noteq> Suc 0" by simp_all
    let ?chunks = "array_split_sections rows (nat n)"
    let ?fs = "map F ?chunks"
    let ?self = "self\<lparr>slot_datashape := ?shape, slot_models := Some (map Some ?fs),
                       slot_model := None\<rparr>"
    have len: "length ?fs = nat n"
      by (simp add: length_array_split_sections)
    have "collect (map (fit_of cap m) ?chunks) = Inr ?fs"
      by (rule collect_Inr) (simp add: F)
    then have fit: "BaseModel_fit cap data (Some n) self = (None, ?self)"
      using BaseModel_fit_parallel [OF n2 sel mdl, of cap] by simp
    have nm: "n_models_of ?self = nat n"
      using n2 len by (auto simp: n_models_of_def)
    have "predict_chunked cap g [] ?self (nat n) = Inr ?vals"
    proof (cases "slot_S0 self")
      case None
      have "predict_chunked cap g [] ?self (length ?fs)
            = (case collect (map (\<lambda>(f, s). predict_of cap f g s)
                       (zip ?fs (replicate (nat n) PyNone))) of
                 Inl e \<Rightarrow> Inl e | Inr ps \<Rightarrow> Inr (concat ps))"
        using None len by (intro predict_chunked_fitted) simp_all
      then show ?thesis
        using voxelwise_chunks_None [of cap F g "\<lambda>v. f g v None" "nat n" rows] pos None len
        by (simp add: FN voxel_values_def)
    next
      case (Some s)
      with S0 have ls: "length s = length rows" by simp
      have "predict_chunked cap g [] ?self (length ?fs)
            = (case collect (map (\<lambda>(f, s). predict_of cap f g s)
                       (zip ?fs (map PyArray (array_split_sections s (nat n))))) of
                 Inl e \<Rightarrow> Inl e | Inr ps \<Rightarrow> Inr (concat ps))"
        using Some len pos
        by (intro predict_chunked_fitted)
           (simp_all add: array_split_def length_array_split_sections)
      then show ?thesis
        using voxelwise_chunks_Some [of cap F g "\<lambda>(v, b). f g v (Some b)" "nat n" s rows]
          pos Some len ls
        by (simp add: FS voxel_values_def)
    qed
    then have "BaseModel_predict gt cap gradient [] ?self
               = reassemble (slot_mask self) ?shape ?vals"
      using nm ne by (simp add: BaseModel_predict_stages [OF conv])
    with fit show ?thesis by simp
  qed
qed

section \<open>Properties of boolean indexing\<close>

lemma bool_index_Cons [simp]:
  "bool_index (b # bs) (x # xs) = (if b then x # bool_index bs xs else bool_index bs xs)"
  by (simp add: bool_index_def)

lemma bool_index_Nil [simp]: "bool_index [] xs = []" "bool_index bs [] = []"
  by (simp_all add: bool_index_def)

lemma count_true_Cons [simp]:
  "count_true (b # bs) = (if b then Suc (count_true bs) else count_true bs)"
  by (simp add: count_true_def)

lemma count_true_Nil [simp]: "count_true [] = 0"
  by (simp add: count_true_def)

lemma length_bool_index:
  "length bs = length xs \<Longrightarrow> length (bool_index bs xs) = count_true bs"
  by (induction bs xs rule: list_induct2) simp_all

lemma length_bool_assign:
  "length as = length bs \<Longrightarrow> length (bool_assign bs as vs) = length bs"
  by (induction bs as vs rule: bool_assign.induct) simp_all


lemma bool_index_rank:
  "length bs = length xs \<Longrightarrow> p < length bs \<Longrightarrow> bs ! p \<Longrightarrow>
   count_true (take p bs) < count_true bs
   \<and> bool_index bs xs ! count_true (take p bs) = xs ! p"
proof (induction bs xs arbitrary: p rule: list_induct2)
  case Nil
  then show ?case by simp
next
  case (Cons b bs x xs)
  then show ?case by (cases p) auto
qed

lemma count_true_le: "count_true bs \<le> length bs"
  by (simp add: count_true_def)


lemma acts_voxelwise_voxelwise_capability: "acts_voxelwise (voxelwise_capability f) m f"
  by (simp add: acts_voxelwise_def voxelwise_capability_def)

section \<open>Reassembly of the prediction\<close>




section \<open>Chunking and the result of prediction\<close>

text \<open>
  C2, as the specification states it, fails: a deterministic capability may depend on the
  block it is given. With the capability that counts the rows of its block, a volume of two
  voxels is predicted as \<open>[2, 2]\<close> after a fit with one job and as \<open>[1, 1]\<close> after a fit
  with two jobs.
\<close>

theorem chunking_changes_count_capability:
  "BaseModel_predict gradient_table_pair count_capability gradient1 []
       (snd (BaseModel_fit count_capability volume2 (Some 1) count_unfitted))
     = Inr \<lparr>dims = (2, 1, 1), flat = [2, 2]\<rparr>
   \<and> BaseModel_predict gradient_table_pair count_capability gradient1 []
       (snd (BaseModel_fit count_capability volume2 (Some 2) count_unfitted))
     = Inr \<lparr>dims = (2, 1, 1), flat = [1, 1]\<rparr>
   \<and> BaseModel_predict gradient_table_pair count_capability gradient1 []
       (snd (BaseModel_fit count_capability volume2 (Some 2) count_unfitted))
     \<noteq> BaseModel_predict gradient_table_pair count_capability gradient1 []
       (snd (BaseModel_fit count_capability volume2 (Some 1) count_unfitted))"
proof -
  have one: "BaseModel_predict gradient_table_pair count_capability gradient1 []
       (snd (BaseModel_fit count_capability volume2 (Some 1) count_unfitted))
     = Inr \<lparr>dims = (2, 1, 1), flat = [2, 2]\<rparr>"
    by code_simp
  have two: "BaseModel_predict gradient_table_pair count_capability gradient1 []
       (snd (BaseModel_fit count_capability volume2 (Some 2) count_unfitted))
     = Inr \<lparr>dims = (2, 1, 1), flat = [1, 1]\<rparr>"
    by code_simp
  show ?thesis
    unfolding one two by simp
qed

text \<open>
  C2, amended. Let the capability work voxel by voxel. Then for every number of jobs
  \<open>n \<ge> 0\<close> (so for 1, 2, 3 and 5) fit succeeds, and predict after it returns an array of the
  spatial shape of the volume that is the very array returned after a fit with one job.
  Moreover the blocks of \<^verbatim>\<open>np.array_split\<close>, concatenated in the order of their indices,
  are the original rows in their original order.
\<close>

theorem chunking_preserves_voxelwise_prediction:
  fixes cap :: "('m, 'g, 'a::zero) capability" and n :: int
  assumes vw: "acts_voxelwise cap m f"
    and mdl: "slot_model self = Some m"
    and n: "0 \<le> n"
    and conv: "snd (rasb2dipy gt gradient) = Inr g"
    and vol: "volume_ok data" "vsamples data \<noteq> 0"
    and mk: "case slot_mask self of
               None \<Rightarrow> True
             | Some mk \<Rightarrow> array3_ok mk \<and> dims mk = vdims data"
    and S0: "case slot_S0 self of
               None \<Rightarrow> True
             | Some s \<Rightarrow> length s = length (case slot_mask self of
                                              None \<Rightarrow> voxels data
                                            | Some mk \<Rightarrow> bool_index (flat mk) (voxels data))"
  shows "fst (BaseModel_fit cap data (Some n) self) = None
    \<and> (\<exists>out. BaseModel_predict gt cap gradient [] (snd (BaseModel_fit cap data (Some n) self))
                = Inr out
          \<and> dims out = vdims data
          \<and> length (flat out) = size3 (vdims data)
          \<and> BaseModel_predict gt cap gradient [] (snd (BaseModel_fit cap data (Some 1) self))
                = Inr out)
    \<and> (\<forall>k chunks. array_split (voxels data) k = Inr chunks \<longrightarrow>
          length chunks = nat k \<and> concat chunks = voxels data)"
proof -
  let ?rows = "case slot_mask self of
                 None \<Rightarrow> voxels data
               | Some mk \<Rightarrow> bool_index (flat mk) (voxels data)"
  let ?vals = "voxel_values f g ?rows (slot_S0 self)"
  let ?shape = "Some (vdims data, vsamples data)"
  have sel: "select_voxels (slot_mask self) data = Inr ?rows"
    using mk vol(2) by (auto simp: select_voxels_def split: option.splits)
  have S0': "case slot_S0 self of None \<Rightarrow> True | Some s \<Rightarrow> length s = length ?rows"
    using S0 .
  note run = fit_then_predict_voxelwise [OF vw mdl _ sel S0' conv]
  have lv: "length ?vals = length ?rows"
    using S0 by (cases "slot_S0 self") (simp_all add: voxel_values_def)
  have "\<exists>out. reassemble (slot_mask self) ?shape ?vals = Inr out
          \<and> dims out = vdims data \<and> length (flat out) = size3 (vdims data)"
  proof (cases "slot_mask self")
    case None
    then show ?thesis
      using lv vol(1) by (simp add: reassemble_def volume_ok_def)
  next
    case (Some mk0)
    with mk have ok: "array3_ok mk0" "dims mk0 = vdims data" by simp_all
    then have same: "length (flat mk0) = length (voxels data)"
      using vol(1) by (simp add: array3_ok_def volume_ok_def)
    have "length ?vals = count_true (flat mk0)"
      using lv Some length_bool_index [OF same] by simp
    then show ?thesis
      using Some ok
      by (simp add: reassemble_def Let_def length_bool_assign array3_ok_def)
  qed
  then obtain out where out: "reassemble (slot_mask self) ?shape ?vals = Inr out"
    "dims out = vdims data" "length (flat out) = size3 (vdims data)"
    by blast
  have a: "fst (BaseModel_fit cap data (Some n) self) = None"
    using run [OF n] by simp
  have b: "BaseModel_predict gt cap gradient [] (snd (BaseModel_fit cap data (Some n) self))
           = Inr out"
    using run [OF n] out(1) by simp
  have c: "BaseModel_predict gt cap gradient [] (snd (BaseModel_fit cap data (Some 1) self))
           = Inr out"
    using run [of 1] out(1) by simp
  have d: "length chunks = nat k \<and> concat chunks = voxels data"
    if "array_split (voxels data) k = Inr chunks" for k chunks
  proof -
    from that have "0 < nat k" and "chunks = array_split_sections (voxels data) (nat k)"
      by (auto simp: array_split_def split: if_splits)
    then show ?thesis
      by (simp add: length_array_split_sections concat_array_split_sections)
  qed
  from a b c d out(2,3) show ?thesis by blast
qed


theorem chunking_preserves_voxelwise_prediction_witness:
  "acts_voxelwise sum_capability [] (\<lambda>g v b. sum_list v)
   \<and> slot_model unfitted = Some []
   \<and> (0 :: int) \<le> 3
   \<and> snd (rasb2dipy gradient_table_pair gradient1) = Inr ([1000], [[0, 0, 1]])
   \<and> volume_ok volume3 \<and> vsamples volume3 \<noteq> 0
   \<and> slot_mask unfitted = None \<and> slot_S0 unfitted = None
   \<and> fst (BaseModel_fit sum_capability volume3 (Some 3) unfitted) = None
   \<and> BaseModel_predict gradient_table_pair sum_capability gradient1 []
         (snd (BaseModel_fit sum_capability volume3 (Some 3) unfitted))
       = Inr \<lparr>dims = (3, 1, 1), flat = [3, 7, 11]\<rparr>
   \<and> BaseModel_predict gradient_table_pair sum_capability gradient1 []
         (snd (BaseModel_fit sum_capability volume3 (Some 1) unfitted))
       = Inr \<lparr>dims = (3, 1, 1), flat = [3, 7, 11]\<rparr>
   \<and> array_split (voxels volume3) 2 = Inr [[[1, 2], [3, 4]], [[5, 6]]]
   \<and> concat [[[1, 2], [3, 4]], [[5, 6]]] = voxels volume3"
proof -
  let ?g = "([1000], [[0, 0, 1]]) :: int list \<times> int list list"
  have vw: "acts_voxelwise sum_capability [] (\<lambda>g v b. sum_list v)"
    unfolding sum_capability_def by (rule acts_voxelwise_voxelwise_capability)
  have mdl: "slot_model unfitted = Some []"
    by (simp add: unfitted_def)
  have n: "(0 :: int) \<le> 3"
    by simp
  have conv: "snd (rasb2dipy gradient_table_pair gradient1) = Inr ?g"
    by code_simp
  have vol: "volume_ok volume3" "vsamples volume3 \<noteq> 0"
    by (simp_all add: volume3_def volume_ok_def)
  have slots: "slot_mask unfitted = None" "slot_S0 unfitted = None"
    by (simp_all add: unfitted_def BaseModel_init_def)
  have mk: "case slot_mask unfitted of
              None \<Rightarrow> True
            | Some mk \<Rightarrow> array3_ok mk \<and> dims mk = vdims volume3"
    and S0: "case slot_S0 unfitted of
               None \<Rightarrow> True
             | Some s \<Rightarrow> length s = length (case slot_mask unfitted of
                                              None \<Rightarrow> voxels volume3
                                            | Some mk \<Rightarrow> bool_index (flat mk) (voxels volume3))"
    by (simp_all add: slots)
  have split: "array_split (voxels volume3) 2 = Inr [[[1, 2], [3, 4]], [[5, 6]]]"
    by code_simp
  have serial: "BaseModel_predict gradient_table_pair sum_capability gradient1 []
         (snd (BaseModel_fit sum_capability volume3 (Some 1) unfitted))
       = Inr \<lparr>dims = (3, 1, 1), flat = [3, 7, 11]\<rparr>"
    by code_simp
  note inst = chunking_preserves_voxelwise_prediction [OF vw mdl n conv vol mk S0]
  from inst have fit: "fst (BaseModel_fit sum_capability volume3 (Some 3) unfitted) = None"
    by blast
  from inst obtain out where
    "BaseModel_predict gradient_table_pair sum_capability gradient1 []
       (snd (BaseModel_fit sum_capability volume3 (Some 3) unfitted)) = Inr out"
    "BaseModel_predict gradient_table_pair sum_capability gradient1 []
       (snd (BaseModel_fit sum_capability volume3 (Some 1) unfitted)) = Inr out"
    by blast
  with serial have chunked: "BaseModel_predict gradient_table_pair sum_capability gradient1 []
         (snd (BaseModel_fit sum_capability volume3 (Some 3) unfitted))
       = Inr \<lparr>dims = (3, 1, 1), flat = [3, 7, 11]\<rparr>"
    by simp
  from inst split have cat: "concat [[[1, 2], [3, 4]], [[5, 6]]] = voxels volume3"
    by blast
  from vw mdl n conv vol slots fit chunked serial split cat show ?thesis
    by blast
qed

section \<open>The chunk count at predict time\<close>

lemma BaseModel_fit_parallel_no_model:
  fixes n :: int and cap :: "('m, 'g, 'a) capability"
  assumes "1 < n"
    and "select_voxels (slot_mask self) data = Inr rows"
    and "slot_model self = None"
  shows "fst (BaseModel_fit cap data (Some n) self) = Some AttributeError"
proof -
  have "length (array_split_sections rows (nat n)) = nat n"
    by (simp add: length_array_split_sections)
  moreover have "0 < nat n"
    using assms(1) by simp
  ultimately obtain c cs where "array_split_sections rows (nat n) = c # cs"
    by (cases "array_split_sections rows (nat n)") auto
  then show ?thesis
    using assms by (simp add: BaseModel_fit_def array_split_def exec_fit_def)
qed

lemma n_models_of_after_fit:
  fixes n :: int and cap :: "('m, 'g, 'a) capability"
  assumes "BaseModel_fit cap data (Some n) self = (None, self')"
  shows "n_models_of self' = (if n = 0 \<or> n = 1 then 1 else nat n)"
proof (cases "n = 0 \<or> n = 1")
  case True
  from assms obtain rows where sel: "select_voxels (slot_mask self) data = Inr rows"
    by (cases "select_voxels (slot_mask self) data") (auto simp: BaseModel_fit_def Let_def)
  from assms True sel have "slot_model self' \<noteq> None"
    by (auto simp: BaseModel_fit_def Let_def split: sum.splits)
  then show ?thesis
    using True by (simp add: n_models_of_single)
next
  case False
  from assms obtain rows where sel: "select_voxels (slot_mask self) data = Inr rows"
    by (cases "select_voxels (slot_mask self) data") (auto simp: BaseModel_fit_def Let_def)
  have n: "1 < n"
  proof (rule ccontr)
    assume "\<not> 1 < n"
    with False have "n < 0" by simp
    then have "fst (BaseModel_fit cap data (Some n) self) \<noteq> None"
      using sel by (simp add: BaseModel_fit_def array_split_def)
    with assms show False by simp
  qed
  obtain m where mdl: "slot_model self = Some m"
    using BaseModel_fit_parallel_no_model [OF n sel, of cap] assms
    by (cases "slot_model self") auto
  let ?chunks = "array_split_sections rows (nat n)"
  from BaseModel_fit_parallel [OF n sel mdl, of cap] assms
  obtain fitted where c: "collect (map (fit_of cap m) ?chunks) = Inr fitted"
    and s: "self' = self\<lparr>slot_datashape := Some (vdims data, vsamples data),
                           slot_models := Some (map Some fitted), slot_model := None\<rparr>"
    by (cases "collect (map (fit_of cap m) ?chunks)") auto
  have "length fitted = nat n"
    using length_collect [OF c] by (simp add: length_array_split_sections)
  then show ?thesis
    using False n s by (auto simp: n_models_of_def)
qed


text \<open>
  C4, as the specification states it, fails. \<^verbatim>\<open>predict\<close> compares no chunk counts and raises
  nothing of its own. After a fit with one job, a fit with two jobs that raises in a block
  leaves two empty chunk slots beside the old single model; \<^verbatim>\<open>predict\<close> then runs serially on
  the old model and returns its prediction. The exception of a failing block is the one
  the capability raised, the same whether block 0 or block 1 failed.
\<close>

theorem chunk_mismatch_not_reported:
  "BaseModel_fit strict_capability volume3 (Some 1) unfitted = (None, plain_fitted)
   \<and> BaseModel_fit strict_capability volume3_first_bad (Some 2) plain_fitted
       = (Some (LibraryError ''singular''), stale_state)
   \<and> slot_models stale_state = Some [None, None]
   \<and> n_models_of stale_state = 1
   \<and> BaseModel_predict gradient_table_pair strict_capability gradient1 [] stale_state
       = Inr \<lparr>dims = (3, 1, 1), flat = [3, 7, 11]\<rparr>
   \<and> fit_of strict_capability [[1, 2], [3, 4], [5, 6]] [[0, 0], [3, 4]]
       = Inl (LibraryError ''singular'')
   \<and> fit_of strict_capability [[1, 2], [3, 4], [5, 6]] [[5, 6]] = Inr [[5, 6]]
   \<and> fst (BaseModel_fit strict_capability volume3_last_bad (Some 2) plain_fitted)
       = Some (LibraryError ''singular'')
   \<and> fit_of strict_capability [[1, 2], [3, 4], [5, 6]] [[1, 2], [3, 4]] = Inr [[1, 2], [3, 4]]
   \<and> fit_of strict_capability [[1, 2], [3, 4], [5, 6]] [[0, 0]]
       = Inl (LibraryError ''singular'')"
proof -
  have a: "BaseModel_fit strict_capability volume3 (Some 1) unfitted = (None, plain_fitted)"
    by code_simp
  have b: "BaseModel_fit strict_capability volume3_first_bad (Some 2) plain_fitted
       = (Some (LibraryError ''singular''), stale_state)"
    by code_simp
  have c: "slot_models stale_state = Some [None, None]" "n_models_of stale_state = 1"
    by code_simp+
  have d: "BaseModel_predict gradient_table_pair strict_capability gradient1 [] stale_state
       = Inr \<lparr>dims = (3, 1, 1), flat = [3, 7, 11]\<rparr>"
    by code_simp
  have e: "fst (BaseModel_fit strict_capability volume3_last_bad (Some 2) plain_fitted)
       = Some (LibraryError ''singular'')"
    by code_simp
  have f: "fit_of strict_capability [[1, 2], [3, 4], [5, 6]] [[0, 0], [3, 4]]
       = Inl (LibraryError ''singular'')"
    "fit_of strict_capability [[1, 2], [3, 4], [5, 6]] [[5, 6]] = Inr [[5, 6]]"
    "fit_of strict_capability [[1, 2], [3, 4], [5, 6]] [[1, 2], [3, 4]] = Inr [[1, 2], [3, 4]]"
    "fit_of strict_capability [[1, 2], [3, 4], [5, 6]] [[0, 0]]
       = Inl (LibraryError ''singular'')"
    by (simp_all add: strict_capability_def)
  from a b c d e f show ?thesis by blast
qed

text \<open>
  C4, amended. After a fit that succeeded, the chunk count that \<^verbatim>\<open>predict\<close> uses is the one
  of the fit: 1 after a fit with one job, \<open>n\<close> after a fit with \<open>n > 1\<close> jobs. \<^verbatim>\<open>predict\<close>
  reads that count off the stored state and checks nothing: whenever the single model is
  set it predicts serially, whatever the chunk list holds. When a block of a fit with
  \<open>n > 1\<close> jobs raises, fit raises that very exception and leaves \<open>n\<close> empty chunk slots.
\<close>

theorem predict_chunk_count:
  fixes cap :: "('m, 'g, 'a::zero) capability" and n :: int
  shows "(BaseModel_fit cap data (Some n) self = (None, self') \<longrightarrow>
            n_models_of self' = (if n = 0 \<or> n = 1 then 1 else nat n))
    \<and> (slot_model state \<noteq> None \<and> snd (rasb2dipy gt gradient) = Inr g \<longrightarrow>
          n_models_of state = 1
          \<and> BaseModel_predict gt cap gradient kwargs state
              = (case predict_single cap g kwargs state of
                   Inl e \<Rightarrow> Inl e
                 | Inr p \<Rightarrow> reassemble (slot_mask state) (slot_datashape state) p))
    \<and> (1 < n \<and> select_voxels (slot_mask self) data = Inr rows \<and> slot_model self = Some m
        \<and> collect (map (fit_of cap m) (array_split_sections rows (nat n))) = Inl err \<longrightarrow>
          BaseModel_fit cap data (Some n) self
            = (Some err, self\<lparr>slot_datashape := Some (vdims data, vsamples data),
                               slot_models := Some (replicate (nat n) None)\<rparr>))"
proof -
  have a: "n_models_of self' = (if n = 0 \<or> n = 1 then 1 else nat n)"
    if "BaseModel_fit cap data (Some n) self = (None, self')"
    using n_models_of_after_fit [OF that] .
  have b: "n_models_of state = 1
          \<and> BaseModel_predict gt cap gradient kwargs state
              = (case predict_single cap g kwargs state of
                   Inl e \<Rightarrow> Inl e
                 | Inr p \<Rightarrow> reassemble (slot_mask state) (slot_datashape state) p)"
    if "slot_model state \<noteq> None" and conv: "snd (rasb2dipy gt gradient) = Inr g"
    using that(1) by (simp add: BaseModel_predict_stages [OF conv] n_models_of_single)
  have c: "BaseModel_fit cap data (Some n) self
            = (Some err, self\<lparr>slot_datashape := Some (vdims data, vsamples data),
                               slot_models := Some (replicate (nat n) None)\<rparr>)"
    if "1 < n" "select_voxels (slot_mask self) data = Inr rows" "slot_model self = Some m"
      and "collect (map (fit_of cap m) (array_split_sections rows (nat n))) = Inl err"
    using BaseModel_fit_parallel [OF that(1-3), of cap] that(4) by simp
  from a b c show ?thesis by blast
qed

theorem predict_chunk_count_witness:
  "BaseModel_fit sum_capability volume3 (Some 2) unfitted = (None, chunked_fitted)
   \<and> n_models_of chunked_fitted = 2
   \<and> slot_model stale_state \<noteq> None
   \<and> snd (rasb2dipy gradient_table_pair gradient1) = Inr ([1000], [[0, 0, 1]])
   \<and> n_models_of stale_state = 1
   \<and> BaseModel_predict gradient_table_pair strict_capability gradient1 [] stale_state
       = Inr \<lparr>dims = (3, 1, 1), flat = [3, 7, 11]\<rparr>
   \<and> (1 :: int) < 2
   \<and> select_voxels (slot_mask plain_fitted) volume3_first_bad = Inr [[0, 0], [3, 4], [5, 6]]
   \<and> slot_model plain_fitted = Some [[1, 2], [3, 4], [5, 6]]
   \<and> collect (map (fit_of strict_capability [[1, 2], [3, 4], [5, 6]])
                (array_split_sections [[0, 0], [3, 4], [5, 6]] (nat 2)))
       = Inl (LibraryError ''singular'')
   \<and> BaseModel_fit strict_capability volume3_first_bad (Some 2) plain_fitted
       = (Some (LibraryError ''singular''), stale_state)"
proof -
  let ?g = "([1000], [[0, 0, 1]]) :: int list \<times> int list list"
  let ?m = "[[1, 2], [3, 4], [5, 6]] :: int list list"
  let ?rows = "[[0, 0], [3, 4], [5, 6]] :: int list list"
  have fit: "BaseModel_fit sum_capability volume3 (Some 2) unfitted = (None, chunked_fitted)"
    by code_simp
  have mdl: "slot_model stale_state \<noteq> None"
    by (simp add: stale_state_def plain_fitted_def)
  have conv: "snd (rasb2dipy gradient_table_pair gradient1) = Inr ?g"
    by code_simp
  have single: "predict_single strict_capability ?g [] stale_state = Inr [3, 7, 11]"
    by code_simp
  have re: "reassemble (slot_mask stale_state) (slot_datashape stale_state) [3, 7, 11 :: int]
            = Inr \<lparr>dims = (3, 1, 1), flat = [3, 7, 11]\<rparr>"
    by code_simp
  have two: "(1 :: int) < 2"
    by simp
  have sel: "select_voxels (slot_mask plain_fitted) volume3_first_bad = Inr ?rows"
    by code_simp
  have pm: "slot_model plain_fitted = Some ?m"
    by (simp add: plain_fitted_def)
  have col: "collect (map (fit_of strict_capability ?m) (array_split_sections ?rows (nat 2)))
       = Inl (LibraryError ''singular'')"
    by code_simp
  have st: "plain_fitted\<lparr>slot_datashape := Some (vdims volume3_first_bad,
                                                  vsamples volume3_first_bad),
                          slot_models := Some (replicate (nat 2) None)\<rparr> = stale_state"
    by code_simp
  from predict_chunk_count [THEN conjunct1, rule_format, OF fit]
  have a: "n_models_of chunked_fitted = 2"
    by simp
  note inst2 = predict_chunk_count [where cap = strict_capability and state = stale_state
      and gt = gradient_table_pair and gradient = gradient1 and g = ?g and kwargs = "[]"
      and n = 2 and self = plain_fitted and data = volume3_first_bad and rows = ?rows
      and m = ?m and err = "LibraryError ''singular''"]
  from inst2 mdl conv have b: "n_models_of stale_state = 1"
    and "BaseModel_predict gradient_table_pair strict_capability gradient1 [] stale_state
           = (case predict_single strict_capability ?g [] stale_state of
                Inl e \<Rightarrow> Inl e
              | Inr p \<Rightarrow> reassemble (slot_mask stale_state) (slot_datashape stale_state) p)"
    by blast+
  then have c: "BaseModel_predict gradient_table_pair strict_capability gradient1 [] stale_state
       = Inr \<lparr>dims = (3, 1, 1), flat = [3, 7, 11]\<rparr>"
    by (simp add: single re)
  from inst2 two sel pm col
  have "BaseModel_fit strict_capability volume3_first_bad (Some 2) plain_fitted
          = (Some (LibraryError ''singular''),
             plain_fitted\<lparr>slot_datashape := Some (vdims volume3_first_bad,
                                                     vsamples volume3_first_bad),
                          slot_models := Some (replicate (nat 2) None)\<rparr>)"
    by blast
  then have d: "BaseModel_fit strict_capability volume3_first_bad (Some 2) plain_fitted
       = (Some (LibraryError ''singular''), stale_state)"
    by (simp only: st)
  from fit a mdl conv b c two sel pm col d show ?thesis
    by blast
qed

section \<open>The average model\<close>











end
